theory Spec2Isabelle
  imports Main
begin

section \<open>Data model of \<open>server/app.py\<close>\<close>

text \<open>
  The handlers of \<open>app.py\<close> work on three pieces of state: the rows of the database
  behind \<open>db.session\<close>, the Flask \<open>session\<close> of the requesting client, and the JSON body of
  the request. The ORM classes come from \<open>models.py\<close>; only the columns that \<open>app.py\<close>
  reads or writes appear below. Python integers are unbounded, hence \<open>int\<close>.
\<close>

record userauth =
  ua_id :: int
  username :: string
  email :: string
  password_hash :: string

record product =
  p_id :: int
  name :: string
  price :: int

record order_rec =
  o_id :: int
  user_id :: int
  shipping_info_id :: "int option"

record order_detail =
  od_id :: int
  order_id :: int
  product_id :: int
  quantity :: int

record store =
  users :: "userauth list"
  products :: "product list"
  orders :: "order_rec list"
  order_details :: "order_detail list"

text \<open>
  The Flask session is a dictionary; \<open>app.py\<close> only ever stores the keys \<open>user_id\<close>,
  \<open>username\<close> and \<open>logged_in\<close> in it, so it is a record of three optional entries
  (\<open>None\<close>: the key is absent). \<open>session.clear()\<close> yields \<open>anonymous\<close>.
\<close>

record flask_session =
  sess_user_id :: "int option"
  sess_username :: "string option"
  sess_logged_in :: "bool option"

definition anonymous :: flask_session where
  "anonymous = \<lparr>sess_user_id = None, sess_username = None, sess_logged_in = None\<rparr>"

record world =
  db :: store
  session :: flask_session

text \<open>
  The body of an account request is a JSON object with string members, kept as the list
  of its items; \<open>data["k"]\<close> is \<open>map_of data k\<close> and raises \<open>KeyError\<close> on \<open>None\<close>.
\<close>

type_synonym json_obj = "(string \<times> string) list"

record detail_request =
  req_product_id :: "int option"
  req_quantity :: "int option"

record order_request =
  req_user_id :: "int option"
  req_shipping_info_id :: "int option"
  req_order_details :: "detail_request list option"

datatype exn = KeyError string | HasherError | IntegrityError

datatype body =
    Message string
  | Error string
  | ErrorOf exn
  | LoginView int string string
  | Authenticated int string string
  | NotAuthenticated "string option"
  | OrderView order_rec "order_detail list"

text \<open>
  A handler either returns a response (body and status code, as in
  \<open>make_response(body, status)\<close>) or lets an exception escape.
\<close>

datatype outcome = Response body nat | Raised exn

text \<open>
  What \<open>app.py\<close> calls but does not define is a parameter of the model: the two
  \<open>flask_bcrypt\<close> functions (\<open>None\<close>: the library raised) and the integrity constraints
  that the tables of \<open>models.py\<close> declare, checked by the store whenever pending rows are
  written (\<open>flush\<close>, \<open>commit\<close>).
\<close>

text \<open>The status code of a returned response; \<open>None\<close> when an exception escaped.\<close>

definition status_of :: "outcome \<Rightarrow> nat option" where
  "status_of r = (case r of Response b st \<Rightarrow> Some st | Raised e \<Rightarrow> None)"

record env =
  generate_password_hash :: "string \<Rightarrow> string option"
  check_password_hash :: "string \<Rightarrow> string \<Rightarrow> bool option"
  constraints_ok :: "store \<Rightarrow> bool"

section \<open>Queries\<close>

text \<open>\<open>UserAuth.query.filter_by(username=u).first()\<close>\<close>

definition first_by_username :: "string \<Rightarrow> userauth list \<Rightarrow> userauth option" where
  "first_by_username u us = List.find (\<lambda>a. username a = u) us"

text \<open>\<open>UserAuth.query.get(i)\<close>\<close>

definition get_user :: "int \<Rightarrow> userauth list \<Rightarrow> userauth option" where
  "get_user i us = List.find (\<lambda>a. ua_id a = i) us"

text \<open>\<open>Product.query.get(i)\<close>, the lookup that the product handlers use.\<close>

definition get_product :: "int \<Rightarrow> product list \<Rightarrow> product option" where
  "get_product i ps = List.find (\<lambda>p. p_id p = i) ps"

text \<open>The primary key that the store gives to a new row: one more than the largest in use.\<close>

definition next_id :: "int list \<Rightarrow> int" where
  "next_id ids = fold max ids 0 + 1"

section \<open>Session handlers\<close>

text \<open>\<open>UserLogoutResource.post\<close>: \<open>session.clear()\<close>, then 200.\<close>

definition logout_post :: "world \<Rightarrow> outcome \<times> world" where
  "logout_post w = (Response (Message ''Logout successful'') 200, w\<lparr>session := anonymous\<rparr>)"

text \<open>
  \<open>SessionCheckResource.get\<close>. \<open>if user_id:\<close> is false for a missing key and for \<open>0\<close>.
\<close>

definition session_check_get :: "world \<Rightarrow> outcome \<times> world" where
  "session_check_get w =
     (case sess_user_id (session w) of
        None \<Rightarrow> (Response (NotAuthenticated None) 200, w)
      | Some i \<Rightarrow>
          if i = 0 then (Response (NotAuthenticated None) 200, w)
          else (case get_user i (users (db w)) of
                  Some user \<Rightarrow>
                    (Response (Authenticated (ua_id user) (username user) (email user)) 200, w)
                | None \<Rightarrow> (Response (NotAuthenticated (Some ''User not found'')) 404, w)))"

text \<open>
  \<open>UserLoginResource.post\<close>. For a JSON object \<open>not data\<close> holds exactly when it is empty.
  A falsy \<open>user\<close> short-circuits the password check. An exception of the hasher is not
  caught here.
\<close>

definition login_post :: "env \<Rightarrow> json_obj \<Rightarrow> world \<Rightarrow> outcome \<times> world" where
  "login_post E data w =
     (if data = [] \<or> map_of data ''username'' = None \<or> map_of data ''password'' = None
      then (Response (Error ''Username and password are required'') 400, w)
      else
        (case map_of data ''username'' of
           None \<Rightarrow> (Raised (KeyError ''username''), w)
         | Some uname \<Rightarrow>
             (case first_by_username uname (users (db w)) of
                None \<Rightarrow> (Response (Error ''Invalid username or password'') 401, w)
              | Some user \<Rightarrow>
                  (case map_of data ''password'' of
                     None \<Rightarrow> (Raised (KeyError ''password''), w)
                   | Some pw \<Rightarrow>
                       (case check_password_hash E (password_hash user) pw of
                          None \<Rightarrow> (Raised HasherError, w)
                        | Some False \<Rightarrow>
                            (Response (Error ''Invalid username or password'') 401, w)
                        | Some True \<Rightarrow>
                            (Response (LoginView (ua_id user) (username user) (email user)) 200,
                             w\<lparr>session :=
                                 \<lparr>sess_user_id = Some (ua_id user),
                                  sess_username = Some (username user),
                                  sess_logged_in = Some True\<rparr>\<rparr>))))))"

section \<open>Account handlers\<close>

text \<open>
  Rows added to \<open>db.session\<close> are pending until \<open>commit\<close>. A handler that lets an exception
  escape never commits, and the pending rows are dropped when the request ends, so on
  every \<open>Raised\<close> outcome the world is the one the request started with.
\<close>

definition new_user :: "store \<Rightarrow> string \<Rightarrow> string \<Rightarrow> string \<Rightarrow> userauth" where
  "new_user s uname em hashed_password =
     \<lparr>ua_id = next_id (map ua_id (users s)), username = uname, email = em,
      password_hash = hashed_password\<rparr>"

definition add_user :: "store \<Rightarrow> userauth \<Rightarrow> store" where
  "add_user s u = s\<lparr>users := users s @ [u]\<rparr>"

text \<open>
  \<open>UserAuthResource.post\<close> (registration). The keys are read in the order of the source:
  \<open>username\<close> for the lookup, \<open>password\<close> for the hash, \<open>email\<close> for the new row.
\<close>

definition user_post :: "env \<Rightarrow> json_obj \<Rightarrow> world \<Rightarrow> outcome \<times> world" where
  "user_post E user_data w =
     (case map_of user_data ''username'' of
        None \<Rightarrow> (Raised (KeyError ''username''), w)
      | Some uname \<Rightarrow>
          (case first_by_username uname (users (db w)) of
             Some user \<Rightarrow> (Response (Error ''Username already exists.'') 400, w)
           | None \<Rightarrow>
               (case map_of user_data ''password'' of
                  None \<Rightarrow> (Raised (KeyError ''password''), w)
                | Some pw \<Rightarrow>
                    (case generate_password_hash E pw of
                       None \<Rightarrow> (Raised HasherError, w)
                     | Some hashed_password \<Rightarrow>
                         (case map_of user_data ''email'' of
                            None \<Rightarrow> (Raised (KeyError ''email''), w)
                          | Some em \<Rightarrow>
                              (let u = new_user (db w) uname em hashed_password;
                                   staged = add_user (db w) u
                               in if \<not> constraints_ok E staged then (Raised IntegrityError, w)
                                  else
                                    (Response (Message ''User created and logged in successfully'') 201,
                                     \<lparr>db = staged,
                                      session =
                                        \<lparr>sess_user_id = Some (ua_id u),
                                         sess_username = Some (username u),
                                         sess_logged_in = Some True\<rparr>\<rparr>)))))))"

text \<open>\<open>db.session.delete(user)\<close>: the row with the primary key of \<open>user\<close> goes.\<close>

definition delete_user :: "store \<Rightarrow> userauth \<Rightarrow> store" where
  "delete_user s user = s\<lparr>users := filter (\<lambda>a. ua_id a \<noteq> ua_id user) (users s)\<rparr>"

text \<open>
  The \<open>try\<close> block of \<open>UserAuthResource.delete\<close>: \<open>Inl\<close> is an exception raised inside it.
\<close>

definition user_delete_try :: "env \<Rightarrow> json_obj \<Rightarrow> world \<Rightarrow> exn + (outcome \<times> world)" where
  "user_delete_try E data w =
     (if \<not> list_all (\<lambda>key. map_of data key \<noteq> None) [''username'', ''password'']
      then Inr (Response (Error ''Username and password are required'') 400, w)
      else
        (case map_of data ''username'' of
           None \<Rightarrow> Inl (KeyError ''username'')
         | Some uname \<Rightarrow>
             (case map_of data ''password'' of
                None \<Rightarrow> Inl (KeyError ''password'')
              | Some pw \<Rightarrow>
                  (case first_by_username uname (users (db w)) of
                     None \<Rightarrow> Inr (Response (Error ''User not found'') 404, w)
                   | Some user \<Rightarrow>
                       (case check_password_hash E (password_hash user) pw of
                          None \<Rightarrow> Inl HasherError
                        | Some False \<Rightarrow> Inr (Response (Error ''Incorrect password'') 401, w)
                        | Some True \<Rightarrow>
                            (let staged = delete_user (db w) user
                             in if \<not> constraints_ok E staged then Inl IntegrityError
                                else Inr (Response (Message ''User deleted successfully'') 200,
                                          \<lparr>db = staged, session = anonymous\<rparr>)))))))"

text \<open>\<open>UserAuthResource.delete\<close>: \<open>except Exception\<close> turns every exception into a 500.\<close>

definition user_delete :: "env \<Rightarrow> json_obj \<Rightarrow> world \<Rightarrow> outcome \<times> world" where
  "user_delete E data w =
     (case user_delete_try E data w of
        Inr r \<Rightarrow> r
      | Inl error \<Rightarrow> (Response (ErrorOf error) 500, w))"

text \<open>\<open>user.password_hash = h\<close>: an update of the row with the primary key of \<open>user\<close>.\<close>

definition set_password_hash :: "store \<Rightarrow> userauth \<Rightarrow> string \<Rightarrow> store" where
  "set_password_hash s user h =
     s\<lparr>users := map (\<lambda>a. if ua_id a = ua_id user then a\<lparr>password_hash := h\<rparr> else a) (users s)\<rparr>"

text \<open>
  \<open>UserAuthResource.patch\<close> (password change). \<open>newPassword\<close> is read only after the old
  password has verified.
\<close>

definition user_patch :: "env \<Rightarrow> json_obj \<Rightarrow> world \<Rightarrow> outcome \<times> world" where
  "user_patch E data w =
     (case map_of data ''username'' of
        None \<Rightarrow> (Raised (KeyError ''username''), w)
      | Some uname \<Rightarrow>
          (case first_by_username uname (users (db w)) of
             None \<Rightarrow> (Response (Error ''Invalid credentials'') 401, w)
           | Some user \<Rightarrow>
               (case map_of data ''password'' of
                  None \<Rightarrow> (Raised (KeyError ''password''), w)
                | Some pw \<Rightarrow>
                    (case check_password_hash E (password_hash user) pw of
                       None \<Rightarrow> (Raised HasherError, w)
                     | Some False \<Rightarrow> (Response (Error ''Invalid credentials'') 401, w)
                     | Some True \<Rightarrow>
                         (case map_of data ''newPassword'' of
                            None \<Rightarrow> (Raised (KeyError ''newPassword''), w)
                          | Some np \<Rightarrow>
                              (case generate_password_hash E np of
                                 None \<Rightarrow> (Raised HasherError, w)
                               | Some h \<Rightarrow>
                                   (let staged = set_password_hash (db w) user h
                                    in if \<not> constraints_ok E staged
                                       then (Raised IntegrityError, w)
                                       else (Response (Message ''Password updated successfully'') 200,
                                             w\<lparr>db := staged\<rparr>))))))))"

section \<open>Order creation\<close>

text \<open>
  The loop of \<open>OrderResource.post\<close> over \<open>data["order_details"]\<close>: each item adds one pending
  \<open>OrderDetail\<close> row for the order \<open>oid\<close>; a missing key raises and ends the loop.
\<close>

fun add_details :: "int \<Rightarrow> detail_request list \<Rightarrow> store \<Rightarrow> exn + store" where
  "add_details oid [] s = Inr s"
| "add_details oid (detail # rest) s =
     (case req_product_id detail of
        None \<Rightarrow> Inl (KeyError ''product_id'')
      | Some pid \<Rightarrow>
          (case req_quantity detail of
             None \<Rightarrow> Inl (KeyError ''quantity'')
           | Some q \<Rightarrow>
               add_details oid rest
                 (s\<lparr>order_details := order_details s @
                      [\<lparr>od_id = next_id (map od_id (order_details s)), order_id = oid,
                        product_id = pid, quantity = q\<rparr>]\<rparr>)))"

definition new_order :: "store \<Rightarrow> int \<Rightarrow> int option \<Rightarrow> order_rec" where
  "new_order s uid sid =
     \<lparr>o_id = next_id (map o_id (orders s)), user_id = uid, shipping_info_id = sid\<rparr>"

definition add_order :: "store \<Rightarrow> order_rec \<Rightarrow> store" where
  "add_order s ord = s\<lparr>orders := orders s @ [ord]\<rparr>"

text \<open>\<open>new_order.to_dict()\<close>: the order with its line items.\<close>

definition order_view :: "store \<Rightarrow> order_rec \<Rightarrow> body" where
  "order_view s ord = OrderView ord (filter (\<lambda>d. order_id d = o_id ord) (order_details s))"

text \<open>
  \<open>OrderResource.post\<close>: the header is added and flushed, then one row per line item is
  added, then everything is committed. Nothing is looked up and nothing is validated.
\<close>

definition order_post :: "env \<Rightarrow> order_request \<Rightarrow> world \<Rightarrow> outcome \<times> world" where
  "order_post E data w =
     (case req_user_id data of
        None \<Rightarrow> (Raised (KeyError ''user_id''), w)
      | Some uid \<Rightarrow>
          (let ord = new_order (db w) uid (req_shipping_info_id data);
               flushed = add_order (db w) ord
           in if \<not> constraints_ok E flushed then (Raised IntegrityError, w)
              else
                (case req_order_details data of
                   None \<Rightarrow> (Raised (KeyError ''order_details''), w)
                 | Some details \<Rightarrow>
                     (case add_details (o_id ord) details flushed of
                        Inl e \<Rightarrow> (Raised e, w)
                      | Inr staged \<Rightarrow>
                          if \<not> constraints_ok E staged then (Raised IntegrityError, w)
                          else (Response (order_view staged ord) 201, w\<lparr>db := staged\<rparr>)))))"

section \<open>A concrete environment\<close>

text \<open>
  The theorems below hold for every hasher and every set of constraints. To evaluate
  them on concrete requests, a deterministic stand-in for the hasher is enough: it
  refuses the empty password, as \<open>flask_bcrypt\<close> does, and marks a digest with a prefix.
\<close>

definition stub_hash :: "string \<Rightarrow> string option" where
  "stub_hash pw = (if pw = [] then None else Some (''#'' @ pw))"

definition stub_check :: "string \<Rightarrow> string \<Rightarrow> bool option" where
  "stub_check h pw = (case h of [] \<Rightarrow> None | c # cs \<Rightarrow> Some (c = CHR ''#'' \<and> cs = pw))"

text \<open>
  Modelled from the spec: the constraints of the tables, which \<open>models.py\<close> (not part of
  the sources at hand) declares. The data model of the specification names one: the
  username is unique across all accounts.
\<close>

definition unique_usernames :: "store \<Rightarrow> bool" where
  "unique_usernames s = distinct (map username (users s))"

definition stub_env :: env where
  "stub_env = \<lparr>generate_password_hash = stub_hash, check_password_hash = stub_check,
               constraints_ok = unique_usernames\<rparr>"

definition alice :: userauth where
  "alice = \<lparr>ua_id = 1, username = ''alice'', email = ''alice@example.com'',
            password_hash = ''#secret1''\<rparr>"

definition shop :: world where
  "shop = \<lparr>db = \<lparr>users = [alice],
                 products = [\<lparr>p_id = 1, name = ''mug'', price = 1299\<rparr>],
                 orders = [], order_details = []\<rparr>,
           session = anonymous\<rparr>"

definition alice_form :: json_obj where
  "alice_form = [(''username'', ''alice''), (''email'', ''alice@example.com''), (''password'', ''secret1'')]"

definition bob_form :: json_obj where
  "bob_form = [(''username'', ''bob''), (''email'', ''alice@example.com''), (''password'', ''hunter2'')]"

definition carol_form :: json_obj where
  "carol_form = [(''username'', ''carol''), (''email'', ''alice@example.com''), (''password'', ''x'')]"

text \<open>A store that refuses every write, to evaluate the paths on which \<open>commit\<close> raises.\<close>

definition refuse_all :: "store \<Rightarrow> bool" where
  "refuse_all s = False"

definition refusing_env :: env where
  "refusing_env = \<lparr>generate_password_hash = stub_hash, check_password_hash = stub_check,
                    constraints_ok = refuse_all\<rparr>"

definition alice_session :: flask_session where
  "alice_session = \<lparr>sess_user_id = Some 1, sess_username = Some ''alice'',
                     sess_logged_in = Some True\<rparr>"

definition alice_at_shop :: world where
  "alice_at_shop = shop\<lparr>session := alice_session\<rparr>"

text \<open>Three order requests of user 1: for a product id that no product has, for quantity \<open>0\<close> of
  an existing product, and with an empty list of line items; and one whose second line
  item lacks its \<open>quantity\<close>, after a first line item with both defects.\<close>

definition unknown_product_order :: order_request where
  "unknown_product_order =
     \<lparr>req_user_id = Some 1, req_shipping_info_id = None,
      req_order_details = Some [\<lparr>req_product_id = Some 99999, req_quantity = Some 2\<rparr>]\<rparr>"

definition zero_quantity_order :: order_request where
  "zero_quantity_order =
     \<lparr>req_user_id = Some 1, req_shipping_info_id = None,
      req_order_details = Some [\<lparr>req_product_id = Some 1, req_quantity = Some 0\<rparr>]\<rparr>"

definition empty_order :: order_request where
  "empty_order =
     \<lparr>req_user_id = Some 1, req_shipping_info_id = None, req_order_details = Some []\<rparr>"

definition broken_order :: order_request where
  "broken_order =
     \<lparr>req_user_id = Some 1, req_shipping_info_id = None,
      req_order_details = Some [\<lparr>req_product_id = Some 99999, req_quantity = Some 0\<rparr>,
                                \<lparr>req_product_id = Some 1, req_quantity = None\<rparr>]\<rparr>"

section \<open>Facts about the queries\<close>

lemma first_by_username_None_filter:
  "first_by_username u us = None \<Longrightarrow> filter (\<lambda>a. username a = u) us = []"
  by (auto simp: first_by_username_def find_None_iff filter_empty_conv)

lemma first_by_username_Some_username:
  "first_by_username u us = Some a \<Longrightarrow> username a = u \<and> a \<in> set us"
  by (auto simp: first_by_username_def find_Some_iff)

lemma first_by_username_append:
  "first_by_username u (us @ vs) =
     (case first_by_username u us of Some a \<Rightarrow> Some a | None \<Rightarrow> first_by_username u vs)"
  by (induction us) (auto simp: first_by_username_def)

lemma first_by_username_Cons:
  "first_by_username u (a # us) = (if username a = u then Some a else first_by_username u us)"
  and first_by_username_Nil: "first_by_username u [] = None"
  by (simp_all add: first_by_username_def)

lemma first_by_username_new_user:
  "first_by_username u (users (add_user s (new_user s u e h))) \<noteq> None"
  by (cases "first_by_username u (users s)")
    (simp_all add: add_user_def new_user_def first_by_username_append first_by_username_Cons)

section \<open>Logout\<close>

text \<open>
  Claim C8. Logout succeeds from every session state, the anonymous one included: it
  answers 200, leaves the anonymous session and does not touch the database. A second
  logout right after it answers the same and leaves the same state, and a session check
  then reports no authenticated user.
\<close>

theorem logout_idempotent:
  "fst (logout_post w) = Response (Message ''Logout successful'') 200
   \<and> session (snd (logout_post w)) = anonymous
   \<and> db (snd (logout_post w)) = db w
   \<and> logout_post (snd (logout_post w)) = logout_post w
   \<and> fst (logout_post (w\<lparr>session := anonymous\<rparr>)) = Response (Message ''Logout successful'') 200
   \<and> fst (session_check_get (snd (logout_post (snd (logout_post w)))))
       = Response (NotAuthenticated None) 200"
  by (simp add: logout_post_def session_check_get_def anonymous_def)

section \<open>Login\<close>

text \<open>
  Claim C6. A login request that carries a username and a password answers 401 and
  returns the world as it was (database and session, so a session left by an earlier
  login stays) when no account has the username or when the password does not verify.
  When the password verifies it answers 200 with the id, username and email of the
  account, and the session then holds \<open>user_id\<close>, \<open>username\<close> and \<open>logged_in = True\<close>
  (the name of the flag in the code); a session check on that world reports the account
  as authenticated, its id being what \<open>get\<close> finds it under and not \<open>0\<close>.
\<close>

theorem login_outcomes:
  assumes "map_of data ''username'' = Some u" and "map_of data ''password'' = Some p"
  shows "(first_by_username u (users (db w)) = None \<longrightarrow>
            login_post E data w = (Response (Error ''Invalid username or password'') 401, w))
       \<and> (\<forall>a. first_by_username u (users (db w)) = Some a
               \<and> check_password_hash E (password_hash a) p = Some False \<longrightarrow>
            login_post E data w = (Response (Error ''Invalid username or password'') 401, w))
       \<and> (\<forall>a. first_by_username u (users (db w)) = Some a
               \<and> check_password_hash E (password_hash a) p = Some True \<longrightarrow>
            login_post E data w =
              (Response (LoginView (ua_id a) (username a) (email a)) 200,
               w\<lparr>session := \<lparr>sess_user_id = Some (ua_id a), sess_username = Some (username a),
                              sess_logged_in = Some True\<rparr>\<rparr>)
            \<and> (ua_id a \<noteq> 0 \<and> get_user (ua_id a) (users (db w)) = Some a \<longrightarrow>
                 fst (session_check_get (snd (login_post E data w)))
                   = Response (Authenticated (ua_id a) (username a) (email a)) 200))"
proof -
  from assms have "data \<noteq> []" by auto
  with assms show ?thesis by (simp add: login_post_def session_check_get_def)
qed

theorem login_outcomes_witness:
  "login_post stub_env [(''username'', ''bob''), (''password'', ''secret1'')]
       alice_at_shop
     = (Response (Error ''Invalid username or password'') 401,
        alice_at_shop)
   \<and> login_post stub_env [(''username'', ''alice''), (''password'', ''wrong'')] shop
     = (Response (Error ''Invalid username or password'') 401, shop)
   \<and> login_post stub_env [(''username'', ''alice''), (''password'', ''secret1'')] shop
     = (Response (LoginView 1 ''alice'' ''alice@example.com'') 200,
        shop\<lparr>session := \<lparr>sess_user_id = Some 1, sess_username = Some ''alice'',
                          sess_logged_in = Some True\<rparr>\<rparr>)
   \<and> fst (session_check_get (snd (login_post stub_env
        [(''username'', ''alice''), (''password'', ''secret1'')] shop)))
     = Response (Authenticated 1 ''alice'' ''alice@example.com'') 200"
proof -
  have i: "ua_id alice \<noteq> 0" "get_user (ua_id alice) (users (db shop)) = Some alice"
    by (simp_all add: get_user_def shop_def alice_def)
  have u1: "map_of [(''username'', ''bob''), (''password'', ''secret1'')] ''username'' = Some ''bob''"
    and p1: "map_of [(''username'', ''bob''), (''password'', ''secret1'')] ''password'' = Some ''secret1''"
    and u2: "map_of [(''username'', ''alice''), (''password'', ''wrong'')] ''username'' = Some ''alice''"
    and p2: "map_of [(''username'', ''alice''), (''password'', ''wrong'')] ''password'' = Some ''wrong''"
    and u3: "map_of [(''username'', ''alice''), (''password'', ''secret1'')] ''username'' = Some ''alice''"
    and p3: "map_of [(''username'', ''alice''), (''password'', ''secret1'')] ''password'' = Some ''secret1''"
    by simp_all
  have f1: "first_by_username ''bob'' (users (db alice_at_shop)) = None"
    by (simp add: first_by_username_def alice_at_shop_def shop_def alice_def)
  have f2: "first_by_username ''alice'' (users (db shop)) = Some alice"
    by (simp add: first_by_username_def shop_def alice_def)
  have c2: "check_password_hash stub_env (password_hash alice) ''wrong'' = Some False"
    by (simp add: stub_env_def stub_check_def alice_def)
  have c3: "check_password_hash stub_env (password_hash alice) ''secret1'' = Some True"
    by (simp add: stub_env_def stub_check_def alice_def)
  show ?thesis
    using login_outcomes [OF u1 p1, of alice_at_shop stub_env] login_outcomes [OF u2 p2, of shop stub_env]
      login_outcomes [OF u3 p3, of shop stub_env] f1 f2 c2 c3 i
    by (simp add: alice_def session_check_get_def)
qed

section \<open>Registration\<close>

lemma user_post_duplicate:
  assumes "map_of data ''username'' = Some u" and "first_by_username u (users (db w)) = Some a"
  shows "user_post E data w = (Response (Error ''Username already exists.'') 400, w)"
  using assms by (simp add: user_post_def)

lemma user_post_created:
  assumes "map_of data ''username'' = Some u" and "first_by_username u (users (db w)) = None"
    and "map_of data ''password'' = Some p" and "generate_password_hash E p = Some h"
    and "map_of data ''email'' = Some e"
    and "constraints_ok E (add_user (db w) (new_user (db w) u e h))"
  shows "user_post E data w =
           (Response (Message ''User created and logged in successfully'') 201,
            \<lparr>db = add_user (db w) (new_user (db w) u e h),
             session = \<lparr>sess_user_id = Some (ua_id (new_user (db w) u e h)),
                        sess_username = Some u, sess_logged_in = Some True\<rparr>\<rparr>)"
  using assms by (simp add: user_post_def Let_def new_user_def)

text \<open>
  Claim C4. When an account with the username of the request exists, registration
  answers 400 "Username already exists." before anything is added: the world is
  unchanged, and so is the number of accounts with that username. The registration of
  a username that no account has answers 201 and appends one account; registering the
  same username again then answers 400, and exactly one account has the username.
\<close>

theorem register_duplicate_username:
  assumes "map_of data ''username'' = Some u"
  shows "(\<forall>a. first_by_username u (users (db w)) = Some a \<longrightarrow>
            user_post E data w = (Response (Error ''Username already exists.'') 400, w)
            \<and> length (filter (\<lambda>x. username x = u) (users (db (snd (user_post E data w)))))
                = length (filter (\<lambda>x. username x = u) (users (db w))))
       \<and> (\<forall>p h e. first_by_username u (users (db w)) = None
               \<and> map_of data ''password'' = Some p \<and> generate_password_hash E p = Some h
               \<and> map_of data ''email'' = Some e
               \<and> constraints_ok E (add_user (db w) (new_user (db w) u e h)) \<longrightarrow>
            fst (user_post E data w)
              = Response (Message ''User created and logged in successfully'') 201
            \<and> users (db (snd (user_post E data w))) = users (db w) @ [new_user (db w) u e h]
            \<and> user_post E' data (snd (user_post E data w))
                = (Response (Error ''Username already exists.'') 400, snd (user_post E data w))
            \<and> length (filter (\<lambda>x. username x = u)
                 (users (db (snd (user_post E' data (snd (user_post E data w))))))) = 1)"
proof (intro conjI allI impI)
  fix a assume a: "first_by_username u (users (db w)) = Some a"
  from user_post_duplicate [OF assms a]
  show "user_post E data w = (Response (Error ''Username already exists.'') 400, w)" .
  then show "length (filter (\<lambda>x. username x = u) (users (db (snd (user_post E data w)))))
      = length (filter (\<lambda>x. username x = u) (users (db w)))"
    by simp
next
  fix p h e
  assume h: "first_by_username u (users (db w)) = None
     \<and> map_of data ''password'' = Some p \<and> generate_password_hash E p = Some h
     \<and> map_of data ''email'' = Some e
     \<and> constraints_ok E (add_user (db w) (new_user (db w) u e h))"
  let ?w' = "snd (user_post E data w)"
  from h have created: "user_post E data w =
           (Response (Message ''User created and logged in successfully'') 201,
            \<lparr>db = add_user (db w) (new_user (db w) u e h),
             session = \<lparr>sess_user_id = Some (ua_id (new_user (db w) u e h)),
                        sess_username = Some u, sess_logged_in = Some True\<rparr>\<rparr>)"
    using user_post_created [OF assms, of w p E h e] by simp
  then show "fst (user_post E data w)
      = Response (Message ''User created and logged in successfully'') 201"
    by simp
  from created show users': "users (db ?w') = users (db w) @ [new_user (db w) u e h]"
    by (simp add: add_user_def)
  from created have "first_by_username u (users (db ?w')) \<noteq> None"
    using first_by_username_new_user [of u "db w" e h] by simp
  then obtain a where "first_by_username u (users (db ?w')) = Some a" by auto
  from user_post_duplicate [OF assms this]
  show second: "user_post E' data ?w' = (Response (Error ''Username already exists.'') 400, ?w')" .
  from h have "filter (\<lambda>x. username x = u) (users (db w)) = []"
    by (simp add: first_by_username_None_filter)
  with users' second
  show "length (filter (\<lambda>x. username x = u) (users (db (snd (user_post E' data ?w'))))) = 1"
    by (simp add: new_user_def)
qed

theorem register_duplicate_username_witness:
  "user_post stub_env alice_form shop = (Response (Error ''Username already exists.'') 400, shop)
   \<and> length (filter (\<lambda>x. username x = ''alice'') (users (db (snd (user_post stub_env alice_form shop))))) = 1
   \<and> fst (user_post stub_env bob_form shop)
       = Response (Message ''User created and logged in successfully'') 201
   \<and> fst (user_post stub_env bob_form (snd (user_post stub_env bob_form shop)))
       = Response (Error ''Username already exists.'') 400
   \<and> length (filter (\<lambda>x. username x = ''bob'')
        (users (db (snd (user_post stub_env bob_form (snd (user_post stub_env bob_form shop))))))) = 1"
proof -
  have ua: "map_of alice_form ''username'' = Some ''alice''"
    and ub: "map_of bob_form ''username'' = Some ''bob''"
    and pb: "map_of bob_form ''password'' = Some ''hunter2''"
    and eb: "map_of bob_form ''email'' = Some ''alice@example.com''"
    by (simp_all add: alice_form_def bob_form_def)
  have fa: "first_by_username ''alice'' (users (db shop)) = Some alice"
    and fb: "first_by_username ''bob'' (users (db shop)) = None"
    by (simp_all add: first_by_username_def shop_def alice_def)
  have hb: "generate_password_hash stub_env ''hunter2'' = Some ''#hunter2''"
    by (simp add: stub_env_def stub_hash_def)
  have ok: "constraints_ok stub_env
      (add_user (db shop) (new_user (db shop) ''bob'' ''alice@example.com'' ''#hunter2''))"
    by (simp add: stub_env_def unique_usernames_def add_user_def new_user_def shop_def alice_def)
  have n: "length (filter (\<lambda>x. username x = ''alice'') (users (db shop))) = 1"
    by (simp add: shop_def alice_def)
  show ?thesis
    using register_duplicate_username [OF ua, of shop stub_env stub_env]
      register_duplicate_username [OF ub, of shop stub_env stub_env] fa fb pb eb hb ok n
    by (simp add: new_user_def shop_def alice_def)
qed

text \<open>
  Claim C9. Registration looks at the username only. Two requests with different
  usernames, neither of them taken, and the same email address both answer 201 (the
  hasher returning a digest and the store accepting each row), and afterwards two
  accounts share the email address. The email is any string: its form is not checked.
\<close>

theorem register_same_email:
  assumes d1: "map_of data1 ''username'' = Some u1" "map_of data1 ''password'' = Some p1"
      "map_of data1 ''email'' = Some e"
    and d2: "map_of data2 ''username'' = Some u2" "map_of data2 ''password'' = Some p2"
      "map_of data2 ''email'' = Some e"
    and neq: "u1 \<noteq> u2"
    and fresh: "first_by_username u1 (users (db w)) = None"
      "first_by_username u2 (users (db w)) = None"
    and hashed: "generate_password_hash E p1 = Some h1" "generate_password_hash E p2 = Some h2"
    and ok1: "constraints_ok E (add_user (db w) (new_user (db w) u1 e h1))"
    and ok2: "constraints_ok E
        (add_user (add_user (db w) (new_user (db w) u1 e h1))
           (new_user (add_user (db w) (new_user (db w) u1 e h1)) u2 e h2))"
  shows "fst (user_post E data1 w)
           = Response (Message ''User created and logged in successfully'') 201
       \<and> fst (user_post E data2 (snd (user_post E data1 w)))
           = Response (Message ''User created and logged in successfully'') 201
       \<and> (\<exists>a1 a2. users (db (snd (user_post E data2 (snd (user_post E data1 w)))))
                     = users (db w) @ [a1, a2]
             \<and> username a1 = u1 \<and> username a2 = u2 \<and> email a1 = e \<and> email a2 = e)"
proof -
  let ?a1 = "new_user (db w) u1 e h1"
  let ?s1 = "add_user (db w) ?a1"
  let ?a2 = "new_user ?s1 u2 e h2"
  let ?w1 = "snd (user_post E data1 w)"
  have first: "user_post E data1 w =
      (Response (Message ''User created and logged in successfully'') 201,
       \<lparr>db = ?s1, session = \<lparr>sess_user_id = Some (ua_id ?a1), sess_username = Some u1,
                              sess_logged_in = Some True\<rparr>\<rparr>)"
    using user_post_created [OF d1(1) fresh(1) d1(2) hashed(1) d1(3) ok1] .
  then have db1: "db ?w1 = ?s1" by simp
  have "first_by_username u2 (users ?s1) = None"
    using fresh(2) neq
    by (simp add: add_user_def new_user_def first_by_username_append first_by_username_Cons
        first_by_username_Nil)
  with db1 have fresh2: "first_by_username u2 (users (db ?w1)) = None" by simp
  from ok2 db1 have ok2': "constraints_ok E (add_user (db ?w1) (new_user (db ?w1) u2 e h2))"
    by simp
  have second: "user_post E data2 ?w1 =
      (Response (Message ''User created and logged in successfully'') 201,
       \<lparr>db = add_user (db ?w1) (new_user (db ?w1) u2 e h2),
        session = \<lparr>sess_user_id = Some (ua_id (new_user (db ?w1) u2 e h2)),
                   sess_username = Some u2, sess_logged_in = Some True\<rparr>\<rparr>)"
    using user_post_created [OF d2(1) fresh2 d2(2) hashed(2) d2(3) ok2'] .
  have "users (db (snd (user_post E data2 ?w1))) = users (db w) @ [?a1, ?a2]"
    unfolding second using db1 by (simp add: add_user_def)
  moreover have "username ?a1 = u1 \<and> username ?a2 = u2 \<and> email ?a1 = e \<and> email ?a2 = e"
    by (simp add: new_user_def)
  ultimately show ?thesis using first second by auto
qed

theorem register_same_email_witness:
  "fst (user_post stub_env bob_form shop)
     = Response (Message ''User created and logged in successfully'') 201
   \<and> fst (user_post stub_env carol_form (snd (user_post stub_env bob_form shop)))
     = Response (Message ''User created and logged in successfully'') 201
   \<and> map email (users (db (snd (user_post stub_env carol_form
                                     (snd (user_post stub_env bob_form shop))))))
     = [''alice@example.com'', ''alice@example.com'', ''alice@example.com'']"
proof -
  have b: "map_of bob_form ''username'' = Some ''bob''"
      "map_of bob_form ''password'' = Some ''hunter2''"
      "map_of bob_form ''email'' = Some ''alice@example.com''"
    and c: "map_of carol_form ''username'' = Some ''carol''"
      "map_of carol_form ''password'' = Some ''x''"
      "map_of carol_form ''email'' = Some ''alice@example.com''"
    by (simp_all add: bob_form_def carol_form_def)
  have neq: "''bob'' \<noteq> ''carol''" by simp
  have fresh: "first_by_username ''bob'' (users (db shop)) = None"
      "first_by_username ''carol'' (users (db shop)) = None"
    by (simp_all add: first_by_username_def shop_def alice_def)
  have hashed: "generate_password_hash stub_env ''hunter2'' = Some ''#hunter2''"
      "generate_password_hash stub_env ''x'' = Some ''#x''"
    by (simp_all add: stub_env_def stub_hash_def)
  have ok1: "constraints_ok stub_env
      (add_user (db shop) (new_user (db shop) ''bob'' ''alice@example.com'' ''#hunter2''))"
    by (simp add: stub_env_def unique_usernames_def add_user_def new_user_def shop_def alice_def)
  have ok2: "constraints_ok stub_env
      (add_user (add_user (db shop) (new_user (db shop) ''bob'' ''alice@example.com'' ''#hunter2''))
         (new_user (add_user (db shop) (new_user (db shop) ''bob'' ''alice@example.com'' ''#hunter2''))
            ''carol'' ''alice@example.com'' ''#x''))"
    by (simp add: stub_env_def unique_usernames_def add_user_def new_user_def shop_def alice_def)
  from register_same_email [OF b c neq fresh hashed ok1 ok2]
  show ?thesis by (auto simp: shop_def alice_def)
qed

text \<open>
  Claim C10, as amended. When the body lacks \<open>username\<close>, \<open>email\<close> or \<open>password\<close>, no
  account is created and the session is not touched. What the handler answers follows
  the order in which it reads the keys: \<open>KeyError\<close> for a missing \<open>username\<close>; the 400
  "Username already exists." response when the username is present and taken, whatever
  else is missing; \<open>KeyError\<close> for a missing \<open>password\<close> when the username is free; and, the
  password being present and hashed, \<open>KeyError\<close> for the missing \<open>email\<close>. A hasher that
  raises on the password lets its own exception escape.
\<close>

theorem register_missing_field:
  assumes "map_of data ''username'' = None \<or> map_of data ''email'' = None
           \<or> map_of data ''password'' = None"
  shows "snd (user_post E data w) = w
       \<and> (map_of data ''username'' = None \<longrightarrow>
            fst (user_post E data w) = Raised (KeyError ''username''))
       \<and> (\<forall>u a. map_of data ''username'' = Some u
               \<and> first_by_username u (users (db w)) = Some a \<longrightarrow>
            fst (user_post E data w) = Response (Error ''Username already exists.'') 400)
       \<and> (\<forall>u. map_of data ''username'' = Some u
               \<and> first_by_username u (users (db w)) = None
               \<and> map_of data ''password'' = None \<longrightarrow>
            fst (user_post E data w) = Raised (KeyError ''password''))
       \<and> (\<forall>u p. map_of data ''username'' = Some u
               \<and> first_by_username u (users (db w)) = None
               \<and> map_of data ''password'' = Some p
               \<and> generate_password_hash E p = None \<longrightarrow>
            fst (user_post E data w) = Raised HasherError)
       \<and> (\<forall>u p h. map_of data ''username'' = Some u
               \<and> first_by_username u (users (db w)) = None
               \<and> map_of data ''password'' = Some p
               \<and> generate_password_hash E p = Some h \<longrightarrow>
            fst (user_post E data w) = Raised (KeyError ''email''))"
  using assms by (auto simp: user_post_def split: option.splits)

theorem register_missing_field_witness:
  "user_post stub_env [(''email'', ''b@example.com''), (''password'', ''hunter2'')] shop
     = (Raised (KeyError ''username''), shop)
   \<and> user_post stub_env [(''username'', ''alice''), (''password'', ''hunter2'')] shop
     = (Response (Error ''Username already exists.'') 400, shop)
   \<and> user_post stub_env [(''username'', ''bob''), (''email'', ''b@example.com'')] shop
     = (Raised (KeyError ''password''), shop)
   \<and> user_post stub_env [(''username'', ''bob''), (''password'', '''')] shop
     = (Raised HasherError, shop)
   \<and> user_post stub_env [(''username'', ''bob''), (''password'', ''hunter2'')] shop
     = (Raised (KeyError ''email''), shop)"
proof -
  have m: "map_of [(''email'', ''b@example.com''), (''password'', ''hunter2'')] ''username'' = None
         \<or> map_of [(''email'', ''b@example.com''), (''password'', ''hunter2'')] ''email'' = None
         \<or> map_of [(''email'', ''b@example.com''), (''password'', ''hunter2'')] ''password'' = None"
     "map_of [(''username'', ''alice''), (''password'', ''hunter2'')] ''username'' = None
         \<or> map_of [(''username'', ''alice''), (''password'', ''hunter2'')] ''email'' = None
         \<or> map_of [(''username'', ''alice''), (''password'', ''hunter2'')] ''password'' = None"
     "map_of [(''username'', ''bob''), (''email'', ''b@example.com'')] ''username'' = None
         \<or> map_of [(''username'', ''bob''), (''email'', ''b@example.com'')] ''email'' = None
         \<or> map_of [(''username'', ''bob''), (''email'', ''b@example.com'')] ''password'' = None"
     "map_of [(''username'', ''bob''), (''password'', '''')] ''username'' = None
         \<or> map_of [(''username'', ''bob''), (''password'', '''')] ''email'' = None
         \<or> map_of [(''username'', ''bob''), (''password'', '''')] ''password'' = None"
     "map_of [(''username'', ''bob''), (''password'', ''hunter2'')] ''username'' = None
         \<or> map_of [(''username'', ''bob''), (''password'', ''hunter2'')] ''email'' = None
         \<or> map_of [(''username'', ''bob''), (''password'', ''hunter2'')] ''password'' = None"
    by simp_all
  have f: "first_by_username ''alice'' (users (db shop)) = Some alice"
      "first_by_username ''bob'' (users (db shop)) = None"
    by (simp_all add: first_by_username_def shop_def alice_def)
  have g: "generate_password_hash stub_env '''' = None"
      "generate_password_hash stub_env ''hunter2'' = Some ''#hunter2''"
    by (simp_all add: stub_env_def stub_hash_def)
  show ?thesis
    using register_missing_field [OF m(1), of stub_env shop]
      register_missing_field [OF m(2), of stub_env shop]
      register_missing_field [OF m(3), of stub_env shop]
      register_missing_field [OF m(4), of stub_env shop]
      register_missing_field [OF m(5), of stub_env shop] f g
    by (simp add: prod_eq_iff)
qed

text \<open>
  The claim as first stated, that every such request raises a lookup error, fails for a
  body without \<open>email\<close> whose username is taken: the handler returns a response.
\<close>

theorem register_missing_email_counterexample:
  "map_of [(''username'', ''alice''), (''password'', ''secret1'')] ''email'' = None
   \<and> user_post stub_env [(''username'', ''alice''), (''password'', ''secret1'')] shop
       = (Response (Error ''Username already exists.'') 400, shop)"
  by (simp add: user_post_def first_by_username_def shop_def alice_def)

text \<open>
  The minimum length of six that \<open>UserAuthSchema\<close> declares for the password plays no part
  in the handler: a one-character password registers.
\<close>

lemma register_ignores_password_length:
  "length ''x'' < 6
   \<and> fst (user_post stub_env carol_form shop)
       = Response (Message ''User created and logged in successfully'') 201"
  by (simp add: user_post_def carol_form_def first_by_username_def shop_def alice_def stub_env_def
      stub_hash_def unique_usernames_def add_user_def new_user_def Let_def)

section \<open>Account deletion\<close>

lemma get_user_delete_user: "get_user (ua_id a) (users (delete_user s a)) = None"
  by (simp add: get_user_def delete_user_def find_None_iff)

lemma not_in_delete_user: "a \<notin> set (users (delete_user s a))"
  by (simp add: delete_user_def)

lemma first_by_username_delete_user:
  assumes "distinct (map username (users s))" and "first_by_username u (users s) = Some a"
  shows "first_by_username u (users (delete_user s a)) = None"
proof -
  from assms(2) have a: "username a = u" "a \<in> set (users s)"
    by (simp_all add: first_by_username_Some_username)
  from assms(1) have inj: "inj_on username (set (users s))"
    by (simp add: distinct_map)
  have "\<forall>b \<in> set (users (delete_user s a)). username b \<noteq> u"
  proof
    fix b assume b: "b \<in> set (users (delete_user s a))"
    then have "b \<in> set (users s)" and "b \<noteq> a" by (auto simp: delete_user_def)
    with inj a show "username b \<noteq> u" by (auto dest: inj_onD)
  qed
  then show ?thesis by (simp add: first_by_username_def find_None_iff)
qed

lemma user_delete_try_present:
  assumes "map_of data ''username'' = Some u" and "map_of data ''password'' = Some p"
  shows "user_delete_try E data w =
     (case first_by_username u (users (db w)) of
        None \<Rightarrow> Inr (Response (Error ''User not found'') 404, w)
      | Some user \<Rightarrow>
          (case check_password_hash E (password_hash user) p of
             None \<Rightarrow> Inl HasherError
           | Some False \<Rightarrow> Inr (Response (Error ''Incorrect password'') 401, w)
           | Some True \<Rightarrow>
               if \<not> constraints_ok E (delete_user (db w) user) then Inl IntegrityError
               else Inr (Response (Message ''User deleted successfully'') 200,
                         \<lparr>db = delete_user (db w) user, session = anonymous\<rparr>)))"
  using assms by (simp add: user_delete_try_def Let_def split: option.splits bool.splits)

text \<open>
  Claim C5. A delete request that carries a username and a password answers 404 when
  no account has the username and 401 when the account exists and the password does
  not verify; in both cases the world, the account included, is as before. When the
  password verifies and the store accepts the deletion it answers 200, the row of the
  account is gone and the session of the request is cleared, both in the one returned
  world; a session check for any session that still names the deleted id then reports
  no authenticated user. When the store refuses the deletion the answer is 500 and
  neither the account nor the session has changed.
\<close>

theorem delete_account_outcomes:
  assumes "map_of data ''username'' = Some u" and "map_of data ''password'' = Some p"
  shows "(first_by_username u (users (db w)) = None \<longrightarrow>
            user_delete E data w = (Response (Error ''User not found'') 404, w))
       \<and> (\<forall>a. first_by_username u (users (db w)) = Some a
               \<and> check_password_hash E (password_hash a) p = Some False \<longrightarrow>
            user_delete E data w = (Response (Error ''Incorrect password'') 401, w))
       \<and> (\<forall>a. first_by_username u (users (db w)) = Some a
               \<and> check_password_hash E (password_hash a) p = Some True
               \<and> constraints_ok E (delete_user (db w) a) \<longrightarrow>
            user_delete E data w
              = (Response (Message ''User deleted successfully'') 200,
                 \<lparr>db = delete_user (db w) a, session = anonymous\<rparr>)
            \<and> a \<notin> set (users (db (snd (user_delete E data w))))
            \<and> get_user (ua_id a) (users (db (snd (user_delete E data w)))) = None
            \<and> (distinct (map username (users (db w))) \<longrightarrow>
                 first_by_username u (users (db (snd (user_delete E data w)))) = None)
            \<and> fst (session_check_get (snd (user_delete E data w)))
                = Response (NotAuthenticated None) 200
            \<and> (\<forall>s. sess_user_id s = Some (ua_id a) \<longrightarrow>
                 fst (session_check_get \<lparr>db = db (snd (user_delete E data w)), session = s\<rparr>)
                   = (if ua_id a = 0 then Response (NotAuthenticated None) 200
                      else Response (NotAuthenticated (Some ''User not found'')) 404)))
       \<and> (\<forall>a. first_by_username u (users (db w)) = Some a
               \<and> check_password_hash E (password_hash a) p = Some True
               \<and> \<not> constraints_ok E (delete_user (db w) a) \<longrightarrow>
            user_delete E data w = (Response (ErrorOf IntegrityError) 500, w))"
proof (intro conjI allI impI)
  assume "first_by_username u (users (db w)) = None"
  then show "user_delete E data w = (Response (Error ''User not found'') 404, w)"
    by (simp add: user_delete_def user_delete_try_present [OF assms])
next
  fix a
  assume "first_by_username u (users (db w)) = Some a
     \<and> check_password_hash E (password_hash a) p = Some False"
  then show "user_delete E data w = (Response (Error ''Incorrect password'') 401, w)"
    by (simp add: user_delete_def user_delete_try_present [OF assms])
next
  fix a
  assume "first_by_username u (users (db w)) = Some a
     \<and> check_password_hash E (password_hash a) p = Some True
     \<and> \<not> constraints_ok E (delete_user (db w) a)"
  then show "user_delete E data w = (Response (ErrorOf IntegrityError) 500, w)"
    by (simp add: user_delete_def user_delete_try_present [OF assms])
next
  fix a
  assume h: "first_by_username u (users (db w)) = Some a
     \<and> check_password_hash E (password_hash a) p = Some True
     \<and> constraints_ok E (delete_user (db w) a)"
  then show deleted: "user_delete E data w
      = (Response (Message ''User deleted successfully'') 200,
         \<lparr>db = delete_user (db w) a, session = anonymous\<rparr>)"
    by (simp add: user_delete_def user_delete_try_present [OF assms])
  then have db': "db (snd (user_delete E data w)) = delete_user (db w) a"
    and sess': "session (snd (user_delete E data w)) = anonymous"
    by simp_all
  show "a \<notin> set (users (db (snd (user_delete E data w))))"
    unfolding db' by (rule not_in_delete_user)
  show gone: "get_user (ua_id a) (users (db (snd (user_delete E data w)))) = None"
    unfolding db' by (rule get_user_delete_user)
  show "fst (session_check_get (snd (user_delete E data w))) = Response (NotAuthenticated None) 200"
    using sess' by (simp add: session_check_get_def anonymous_def)
  {
    assume "distinct (map username (users (db w)))"
    with h show "first_by_username u (users (db (snd (user_delete E data w)))) = None"
      unfolding db' by (simp add: first_by_username_delete_user)
  }
  {
    fix s :: flask_session assume "sess_user_id s = Some (ua_id a)"
    with gone
    show "fst (session_check_get \<lparr>db = db (snd (user_delete E data w)), session = s\<rparr>)
        = (if ua_id a = 0 then Response (NotAuthenticated None) 200
           else Response (NotAuthenticated (Some ''User not found'')) 404)"
      by (simp add: session_check_get_def)
  }
qed

theorem delete_account_outcomes_witness:
  "user_delete stub_env [(''username'', ''bob''), (''password'', ''secret1'')] alice_at_shop
     = (Response (Error ''User not found'') 404, alice_at_shop)
   \<and> user_delete stub_env [(''username'', ''alice''), (''password'', ''wrong'')] alice_at_shop
     = (Response (Error ''Incorrect password'') 401, alice_at_shop)
   \<and> user_delete stub_env [(''username'', ''alice''), (''password'', ''secret1'')] alice_at_shop
     = (Response (Message ''User deleted successfully'') 200,
        \<lparr>db = (db shop)\<lparr>users := []\<rparr>, session = anonymous\<rparr>)
   \<and> first_by_username ''alice'' (users (db (snd (user_delete stub_env
         [(''username'', ''alice''), (''password'', ''secret1'')] alice_at_shop)))) = None
   \<and> fst (session_check_get \<lparr>db = db (snd (user_delete stub_env
         [(''username'', ''alice''), (''password'', ''secret1'')] alice_at_shop)),
         session = alice_session\<rparr>)
     = Response (NotAuthenticated (Some ''User not found'')) 404
   \<and> user_delete refusing_env [(''username'', ''alice''), (''password'', ''secret1'')] alice_at_shop
     = (Response (ErrorOf IntegrityError) 500, alice_at_shop)"
proof -
  have m: "map_of [(''username'', ''bob''), (''password'', ''secret1'')] ''username'' = Some ''bob''"
      "map_of [(''username'', ''bob''), (''password'', ''secret1'')] ''password'' = Some ''secret1''"
      "map_of [(''username'', ''alice''), (''password'', ''wrong'')] ''username'' = Some ''alice''"
      "map_of [(''username'', ''alice''), (''password'', ''wrong'')] ''password'' = Some ''wrong''"
      "map_of [(''username'', ''alice''), (''password'', ''secret1'')] ''username'' = Some ''alice''"
      "map_of [(''username'', ''alice''), (''password'', ''secret1'')] ''password'' = Some ''secret1''"
    by simp_all
  have f: "first_by_username ''bob'' (users (db alice_at_shop)) = None"
      "first_by_username ''alice'' (users (db alice_at_shop)) = Some alice"
    by (simp_all add: first_by_username_def alice_at_shop_def shop_def alice_def)
  have c: "check_password_hash stub_env (password_hash alice) ''wrong'' = Some False"
      "check_password_hash stub_env (password_hash alice) ''secret1'' = Some True"
      "check_password_hash refusing_env (password_hash alice) ''secret1'' = Some True"
    by (simp_all add: stub_env_def refusing_env_def stub_check_def alice_def)
  have ok: "constraints_ok stub_env (delete_user (db alice_at_shop) alice)"
      "\<not> constraints_ok refusing_env (delete_user (db alice_at_shop) alice)"
    by (simp_all add: stub_env_def refusing_env_def refuse_all_def unique_usernames_def
        delete_user_def alice_at_shop_def shop_def)
  have d: "distinct (map username (users (db alice_at_shop)))"
    by (simp add: alice_at_shop_def shop_def)
  have s: "sess_user_id alice_session = Some (ua_id alice)" "ua_id alice \<noteq> 0"
    by (simp_all add: alice_session_def alice_def)
  have del: "delete_user (db alice_at_shop) alice = (db shop)\<lparr>users := []\<rparr>"
    by (simp add: delete_user_def alice_at_shop_def shop_def)
  show ?thesis
    using delete_account_outcomes [OF m(1,2), of alice_at_shop stub_env]
      delete_account_outcomes [OF m(3,4), of alice_at_shop stub_env]
      delete_account_outcomes [OF m(5,6), of alice_at_shop stub_env]
      delete_account_outcomes [OF m(5,6), of alice_at_shop refusing_env]
      f c ok d s del
    by (simp add: first_by_username_def get_user_def session_check_get_def)
qed

section \<open>Password change\<close>

lemma first_by_username_map:
  assumes "\<And>a. username (f a) = username a"
  shows "first_by_username u (map f us) = map_option f (first_by_username u us)"
  by (induction us) (simp_all add: first_by_username_Nil first_by_username_Cons assms)

lemma first_by_username_set_password_hash:
  assumes "first_by_username u (users s) = Some a"
  shows "first_by_username u (users (set_password_hash s a h)) = Some (a\<lparr>password_hash := h\<rparr>)"
  using assms by (simp add: set_password_hash_def first_by_username_map)

text \<open>
  Claim C7. A password change that carries \<open>username\<close>, \<open>password\<close> and \<open>newPassword\<close>,
  whose old password verifies against the digest of the account, answers 200 (the
  hasher returning a digest for the new password and the store accepting the update):
  the account found under the username now carries that digest, the rows of other
  primary keys are as before, and the session is exactly the one the request came with.
  When no account has the username or the old password does not verify, the answer is
  401 and the world, the stored digest included, is unchanged.
\<close>

theorem change_password_outcomes:
  assumes "map_of data ''username'' = Some u" and "map_of data ''password'' = Some p"
  shows "(\<forall>a np h. first_by_username u (users (db w)) = Some a
               \<and> check_password_hash E (password_hash a) p = Some True
               \<and> map_of data ''newPassword'' = Some np
               \<and> generate_password_hash E np = Some h
               \<and> constraints_ok E (set_password_hash (db w) a h) \<longrightarrow>
            user_patch E data w
              = (Response (Message ''Password updated successfully'') 200,
                 w\<lparr>db := set_password_hash (db w) a h\<rparr>)
            \<and> session (snd (user_patch E data w)) = session w
            \<and> first_by_username u (users (db (snd (user_patch E data w))))
                = Some (a\<lparr>password_hash := h\<rparr>)
            \<and> map ua_id (users (db (snd (user_patch E data w)))) = map ua_id (users (db w))
            \<and> (\<forall>b \<in> set (users (db w)). ua_id b \<noteq> ua_id a \<longrightarrow>
                  b \<in> set (users (db (snd (user_patch E data w))))))
       \<and> (first_by_username u (users (db w)) = None \<longrightarrow>
            user_patch E data w = (Response (Error ''Invalid credentials'') 401, w))
       \<and> (\<forall>a. first_by_username u (users (db w)) = Some a
               \<and> check_password_hash E (password_hash a) p = Some False \<longrightarrow>
            user_patch E data w = (Response (Error ''Invalid credentials'') 401, w))"
proof (intro conjI allI impI ballI)
  assume "first_by_username u (users (db w)) = None"
  with assms show "user_patch E data w = (Response (Error ''Invalid credentials'') 401, w)"
    by (simp add: user_patch_def)
next
  fix a
  assume "first_by_username u (users (db w)) = Some a
     \<and> check_password_hash E (password_hash a) p = Some False"
  with assms show "user_patch E data w = (Response (Error ''Invalid credentials'') 401, w)"
    by (simp add: user_patch_def)
next
  fix a np h
  assume h: "first_by_username u (users (db w)) = Some a
     \<and> check_password_hash E (password_hash a) p = Some True
     \<and> map_of data ''newPassword'' = Some np
     \<and> generate_password_hash E np = Some h
     \<and> constraints_ok E (set_password_hash (db w) a h)"
  with assms show changed: "user_patch E data w
      = (Response (Message ''Password updated successfully'') 200,
         w\<lparr>db := set_password_hash (db w) a h\<rparr>)"
    by (simp add: user_patch_def)
  then have db': "db (snd (user_patch E data w)) = set_password_hash (db w) a h" by simp
  from changed show "session (snd (user_patch E data w)) = session w" by simp
  from h show "first_by_username u (users (db (snd (user_patch E data w))))
      = Some (a\<lparr>password_hash := h\<rparr>)"
    unfolding db' by (simp add: first_by_username_set_password_hash)
  show "map ua_id (users (db (snd (user_patch E data w)))) = map ua_id (users (db w))"
    unfolding db' by (simp add: set_password_hash_def comp_def if_distrib cong: if_cong)
  {
    fix b assume "b \<in> set (users (db w))" and "ua_id b \<noteq> ua_id a"
    then show "b \<in> set (users (db (snd (user_patch E data w))))"
      unfolding db' by (force simp: set_password_hash_def)
  }
qed

theorem change_password_outcomes_witness:
  "user_patch stub_env
       [(''username'', ''alice''), (''password'', ''secret1''), (''newPassword'', ''secret2'')]
       alice_at_shop
     = (Response (Message ''Password updated successfully'') 200,
        alice_at_shop\<lparr>db := (db shop)\<lparr>users := [alice\<lparr>password_hash := ''#secret2''\<rparr>]\<rparr>\<rparr>)
   \<and> session (snd (user_patch stub_env
       [(''username'', ''alice''), (''password'', ''secret1''), (''newPassword'', ''secret2'')]
       alice_at_shop)) = alice_session
   \<and> user_patch stub_env
       [(''username'', ''bob''), (''password'', ''secret1''), (''newPassword'', ''secret2'')]
       alice_at_shop
     = (Response (Error ''Invalid credentials'') 401, alice_at_shop)
   \<and> user_patch stub_env
       [(''username'', ''alice''), (''password'', ''wrong''), (''newPassword'', ''secret2'')]
       alice_at_shop
     = (Response (Error ''Invalid credentials'') 401, alice_at_shop)"
proof -
  have m: "map_of [(''username'', ''alice''), (''password'', ''secret1''), (''newPassword'', ''secret2'')] ''username'' = Some ''alice''"
      "map_of [(''username'', ''alice''), (''password'', ''secret1''), (''newPassword'', ''secret2'')] ''password'' = Some ''secret1''"
      "map_of [(''username'', ''bob''), (''password'', ''secret1''), (''newPassword'', ''secret2'')] ''username'' = Some ''bob''"
      "map_of [(''username'', ''bob''), (''password'', ''secret1''), (''newPassword'', ''secret2'')] ''password'' = Some ''secret1''"
      "map_of [(''username'', ''alice''), (''password'', ''wrong''), (''newPassword'', ''secret2'')] ''username'' = Some ''alice''"
      "map_of [(''username'', ''alice''), (''password'', ''wrong''), (''newPassword'', ''secret2'')] ''password'' = Some ''wrong''"
    and n: "map_of [(''username'', ''alice''), (''password'', ''secret1''), (''newPassword'', ''secret2'')] ''newPassword'' = Some ''secret2''"
    by simp_all
  have f: "first_by_username ''bob'' (users (db alice_at_shop)) = None"
      "first_by_username ''alice'' (users (db alice_at_shop)) = Some alice"
    by (simp_all add: first_by_username_def alice_at_shop_def shop_def alice_def)
  have c: "check_password_hash stub_env (password_hash alice) ''wrong'' = Some False"
      "check_password_hash stub_env (password_hash alice) ''secret1'' = Some True"
    by (simp_all add: stub_env_def stub_check_def alice_def)
  have g: "generate_password_hash stub_env ''secret2'' = Some ''#secret2''"
    by (simp add: stub_env_def stub_hash_def)
  have upd: "set_password_hash (db alice_at_shop) alice ''#secret2''
      = (db shop)\<lparr>users := [alice\<lparr>password_hash := ''#secret2''\<rparr>]\<rparr>"
    by (simp add: set_password_hash_def alice_at_shop_def shop_def)
  have ok: "constraints_ok stub_env (set_password_hash (db alice_at_shop) alice ''#secret2'')"
    unfolding upd by (simp add: stub_env_def unique_usernames_def)
  have sess: "session alice_at_shop = alice_session"
    by (simp add: alice_at_shop_def)
  show ?thesis
    using change_password_outcomes [OF m(1,2), of alice_at_shop stub_env]
      change_password_outcomes [OF m(3,4), of alice_at_shop stub_env]
      change_password_outcomes [OF m(5,6), of alice_at_shop stub_env]
      n f c g ok upd sess
    by simp
qed

section \<open>Placing an order\<close>

lemma add_details_rows:
  "add_details oid ds s = Inr s' \<Longrightarrow>
     users s' = users s \<and> products s' = products s \<and> orders s' = orders s
     \<and> (\<exists>rows. order_details s' = order_details s @ rows
           \<and> map (\<lambda>r. (Some (product_id r), Some (quantity r))) rows
               = map (\<lambda>d. (req_product_id d, req_quantity d)) ds
           \<and> (\<forall>r \<in> set rows. order_id r = oid))"
proof (induction ds arbitrary: s)
  case Nil
  then show ?case by simp
next
  case (Cons d ds)
  from Cons.prems obtain pid q where d: "req_product_id d = Some pid" "req_quantity d = Some q"
    by (auto split: option.splits)
  let ?row = "\<lparr>od_id = next_id (map od_id (order_details s)), order_id = oid,
               product_id = pid, quantity = q\<rparr>"
  let ?s1 = "s\<lparr>order_details := order_details s @ [?row]\<rparr>"
  from Cons.prems d have "add_details oid ds ?s1 = Inr s'" by simp
  from Cons.IH [OF this] obtain rows where
    frame: "users s' = users s" "products s' = products s" "orders s' = orders s"
    and rows: "order_details s' = order_details s @ ?row # rows"
      "map (\<lambda>r. (Some (product_id r), Some (quantity r))) rows
         = map (\<lambda>d. (req_product_id d, req_quantity d)) ds"
      "\<forall>r \<in> set rows. order_id r = oid"
    by auto
  from rows d have "order_details s' = order_details s @ (?row # rows)
      \<and> map (\<lambda>r. (Some (product_id r), Some (quantity r))) (?row # rows)
          = map (\<lambda>d. (req_product_id d, req_quantity d)) (d # ds)
      \<and> (\<forall>r \<in> set (?row # rows). order_id r = oid)"
    by simp
  with frame show ?case by blast
qed

lemma add_details_row_of_item:
  assumes "add_details oid ds s = Inr s'" and "d \<in> set ds"
  shows "\<exists>r \<in> set (order_details s').
           Some (product_id r) = req_product_id d \<and> Some (quantity r) = req_quantity d
           \<and> order_id r = oid"
proof -
  from add_details_rows [OF assms(1)] obtain rows where
    rows: "order_details s' = order_details s @ rows"
      "map (\<lambda>r. (Some (product_id r), Some (quantity r))) rows
         = map (\<lambda>d. (req_product_id d, req_quantity d)) ds"
      "\<forall>r \<in> set rows. order_id r = oid"
    by blast
  from assms(2) have "(req_product_id d, req_quantity d)
      \<in> set (map (\<lambda>d. (req_product_id d, req_quantity d)) ds)"
    by force
  with rows(2) have "(req_product_id d, req_quantity d)
      \<in> set (map (\<lambda>r. (Some (product_id r), Some (quantity r))) rows)"
    by simp
  then obtain r where "r \<in> set rows"
    and "(Some (product_id r), Some (quantity r)) = (req_product_id d, req_quantity d)"
    by auto
  with rows(1,3) show ?thesis by auto
qed

lemma add_details_total:
  "(\<forall>d \<in> set ds. req_product_id d \<noteq> None \<and> req_quantity d \<noteq> None)
     \<Longrightarrow> \<exists>s'. add_details oid ds s = Inr s'"
  by (induction ds arbitrary: s) auto

lemma order_post_raised: "fst (order_post E data w) = Raised e \<Longrightarrow> snd (order_post E data w) = w"
  by (auto simp: order_post_def Let_def split: option.splits sum.splits if_splits)

lemma order_post_status: "status_of (fst (order_post E data w)) \<in> {None, Some 201}"
  by (auto simp: order_post_def status_of_def Let_def split: option.splits sum.splits)

lemma order_post_created:
  assumes "req_user_id data = Some uid" and "req_order_details data = Some details"
    and "constraints_ok E (add_order (db w) (new_order (db w) uid (req_shipping_info_id data)))"
    and "add_details (o_id (new_order (db w) uid (req_shipping_info_id data))) details
           (add_order (db w) (new_order (db w) uid (req_shipping_info_id data))) = Inr staged"
    and "constraints_ok E staged"
  shows "order_post E data w =
           (Response (order_view staged (new_order (db w) uid (req_shipping_info_id data))) 201,
            w\<lparr>db := staged\<rparr>)"
  using assms by (simp add: order_post_def Let_def)

lemma order_post_cases:
  "(\<exists>e. order_post E data w = (Raised e, w))
   \<or> (\<exists>uid details staged.
         req_user_id data = Some uid \<and> req_order_details data = Some details
         \<and> add_details (o_id (new_order (db w) uid (req_shipping_info_id data))) details
              (add_order (db w) (new_order (db w) uid (req_shipping_info_id data))) = Inr staged
         \<and> constraints_ok E staged
         \<and> order_post E data w =
             (Response (order_view staged (new_order (db w) uid (req_shipping_info_id data))) 201,
              w\<lparr>db := staged\<rparr>))"
  by (auto simp: order_post_def Let_def split: option.splits sum.splits)

lemma order_post_accepted:
  assumes "req_user_id data = Some uid" and "req_order_details data = Some details"
    and "\<forall>d \<in> set details. req_product_id d \<noteq> None \<and> req_quantity d \<noteq> None"
    and "constraints_ok E (add_order (db w) (new_order (db w) uid (req_shipping_info_id data)))"
    and "\<forall>s. add_details (o_id (new_order (db w) uid (req_shipping_info_id data))) details
               (add_order (db w) (new_order (db w) uid (req_shipping_info_id data))) = Inr s
             \<longrightarrow> constraints_ok E s"
  shows "status_of (fst (order_post E data w)) = Some 201"
proof -
  from add_details_total [OF assms(3)] obtain staged where
    st: "add_details (o_id (new_order (db w) uid (req_shipping_info_id data))) details
           (add_order (db w) (new_order (db w) uid (req_shipping_info_id data))) = Inr staged"
    by blast
  with assms(5) have "constraints_ok E staged" by blast
  from order_post_created [OF assms(1,2,4) st this] show ?thesis
    by (simp add: status_of_def)
qed

lemma order_post_persists_item:
  assumes "req_order_details data = Some details" and "d \<in> set details"
    and "fst (order_post E data w) = Response b 201"
  shows "length (orders (db (snd (order_post E data w)))) = length (orders (db w)) + 1
       \<and> (\<exists>r \<in> set (order_details (db (snd (order_post E data w)))).
             Some (product_id r) = req_product_id d \<and> Some (quantity r) = req_quantity d
             \<and> order_id r = next_id (map o_id (orders (db w))))"
proof -
  from order_post_cases [of E data w] assms(3) obtain uid details' staged where
    c: "req_order_details data = Some details'"
      "add_details (o_id (new_order (db w) uid (req_shipping_info_id data))) details'
         (add_order (db w) (new_order (db w) uid (req_shipping_info_id data))) = Inr staged"
      "order_post E data w =
         (Response (order_view staged (new_order (db w) uid (req_shipping_info_id data))) 201,
          w\<lparr>db := staged\<rparr>)"
    by auto
  from c(1) assms(1) have eq: "details' = details" by simp
  from c(3) have db': "db (snd (order_post E data w)) = staged" by simp
  from add_details_rows [OF c(2)] have "orders staged = orders (db w) @
      [new_order (db w) uid (req_shipping_info_id data)]"
    by (simp add: add_order_def)
  moreover from add_details_row_of_item [OF c(2) assms(2) [folded eq]]
  have "\<exists>r \<in> set (order_details staged).
      Some (product_id r) = req_product_id d \<and> Some (quantity r) = req_quantity d
      \<and> order_id r = next_id (map o_id (orders (db w)))"
    by (simp add: new_order_def)
  ultimately show ?thesis unfolding db' by simp
qed

text \<open>
  Claim C1, as stated, fails: the order for product 99999, which no product of the shop
  has, is answered 201, and the order and its line item are in the store afterwards.
\<close>

theorem order_unknown_product_counterexample:
  "get_product 99999 (products (db shop)) = None
   \<and> order_post stub_env unknown_product_order shop
     = (Response (OrderView \<lparr>o_id = 1, user_id = 1, shipping_info_id = None\<rparr>
                   [\<lparr>od_id = 1, order_id = 1, product_id = 99999, quantity = 2\<rparr>]) 201,
        shop\<lparr>db := (db shop)
               \<lparr>orders := [\<lparr>o_id = 1, user_id = 1, shipping_info_id = None\<rparr>],
                order_details := [\<lparr>od_id = 1, order_id = 1, product_id = 99999, quantity = 2\<rparr>]\<rparr>\<rparr>)"
  by (simp add: order_post_def unknown_product_order_def shop_def alice_def stub_env_def
      unique_usernames_def add_order_def new_order_def order_view_def next_id_def get_product_def
      Let_def)

text \<open>
  Claim C1, as amended. The handler looks no product up. For a request with a line item
  whose product id no product has: the answer is never 404; when every key is present
  and the store accepts the rows it is 201; with a 201 the order and a line item with the
  unknown product id are in the store; and when an exception escapes, the store and the
  session are as before the request.
\<close>

theorem order_post_unknown_product:
  assumes "req_order_details data = Some details" and "d \<in> set details"
    and "req_product_id d = Some pid" and "get_product pid (products (db w)) = None"
  shows "status_of (fst (order_post E data w)) \<noteq> Some 404
       \<and> (\<forall>uid. req_user_id data = Some uid
              \<and> (\<forall>x \<in> set details. req_product_id x \<noteq> None \<and> req_quantity x \<noteq> None)
              \<and> constraints_ok E (add_order (db w) (new_order (db w) uid (req_shipping_info_id data)))
              \<and> (\<forall>s. add_details (o_id (new_order (db w) uid (req_shipping_info_id data)))
                         details
                         (add_order (db w) (new_order (db w) uid (req_shipping_info_id data)))
                       = Inr s \<longrightarrow> constraints_ok E s) \<longrightarrow>
            status_of (fst (order_post E data w)) = Some 201)
       \<and> (\<forall>b. fst (order_post E data w) = Response b 201 \<longrightarrow>
            length (orders (db (snd (order_post E data w)))) = length (orders (db w)) + 1
            \<and> (\<exists>r \<in> set (order_details (db (snd (order_post E data w)))).
                  product_id r = pid \<and> order_id r = next_id (map o_id (orders (db w)))))
       \<and> (\<forall>e. fst (order_post E data w) = Raised e \<longrightarrow> snd (order_post E data w) = w)"
proof (intro conjI allI impI)
  from order_post_status [of E data w]
  show "status_of (fst (order_post E data w)) \<noteq> Some 404" by auto
next
  fix uid
  assume "req_user_id data = Some uid
     \<and> (\<forall>x \<in> set details. req_product_id x \<noteq> None \<and> req_quantity x \<noteq> None)
     \<and> constraints_ok E (add_order (db w) (new_order (db w) uid (req_shipping_info_id data)))
     \<and> (\<forall>s. add_details (o_id (new_order (db w) uid (req_shipping_info_id data))) details
                (add_order (db w) (new_order (db w) uid (req_shipping_info_id data)))
              = Inr s \<longrightarrow> constraints_ok E s)"
  then show "status_of (fst (order_post E data w)) = Some 201"
    using order_post_accepted [OF _ assms(1)] by blast
next
  fix b assume "fst (order_post E data w) = Response b 201"
  from order_post_persists_item [OF assms(1,2) this] assms(3)
  show "length (orders (db (snd (order_post E data w)))) = length (orders (db w)) + 1"
    and "\<exists>r \<in> set (order_details (db (snd (order_post E data w)))).
           product_id r = pid \<and> order_id r = next_id (map o_id (orders (db w)))"
    by auto
next
  fix e assume "fst (order_post E data w) = Raised e"
  then show "snd (order_post E data w) = w" by (rule order_post_raised)
qed

theorem order_post_unknown_product_witness:
  "get_product 99999 (products (db shop)) = None
   \<and> status_of (fst (order_post stub_env unknown_product_order shop)) = Some 201
   \<and> length (orders (db (snd (order_post stub_env unknown_product_order shop)))) = 1
   \<and> (\<exists>r \<in> set (order_details (db (snd (order_post stub_env unknown_product_order shop)))).
         product_id r = 99999 \<and> order_id r = 1)
   \<and> order_post stub_env broken_order shop = (Raised (KeyError ''quantity''), shop)"
proof -
  have a: "req_order_details unknown_product_order
             = Some [\<lparr>req_product_id = Some 99999, req_quantity = Some 2\<rparr>]"
      "\<lparr>req_product_id = Some 99999, req_quantity = Some 2\<rparr>
         \<in> set [\<lparr>req_product_id = Some 99999, req_quantity = Some 2\<rparr>]"
      "req_product_id \<lparr>req_product_id = Some 99999, req_quantity = Some 2\<rparr> = Some 99999"
    by (simp_all add: unknown_product_order_def)
  have b: "req_order_details broken_order
             = Some [\<lparr>req_product_id = Some 99999, req_quantity = Some 0\<rparr>,
                     \<lparr>req_product_id = Some 1, req_quantity = None\<rparr>]"
      "\<lparr>req_product_id = Some 99999, req_quantity = Some 0\<rparr>
         \<in> set [\<lparr>req_product_id = Some 99999, req_quantity = Some 0\<rparr>,
                \<lparr>req_product_id = Some 1, req_quantity = None\<rparr>]"
      "req_product_id \<lparr>req_product_id = Some 99999, req_quantity = Some 0\<rparr> = Some 99999"
    by (simp_all add: broken_order_def)
  have g: "get_product 99999 (products (db shop)) = None"
    by (simp add: get_product_def shop_def)
  have u: "req_user_id unknown_product_order = Some 1"
      "\<forall>x \<in> set [\<lparr>req_product_id = Some 99999, req_quantity = Some 2\<rparr>].
         req_product_id x \<noteq> None \<and> req_quantity x \<noteq> None"
    by (simp_all add: unknown_product_order_def)
  have ok: "constraints_ok stub_env
        (add_order (db shop) (new_order (db shop) 1 (req_shipping_info_id unknown_product_order)))"
      "\<forall>s. add_details (o_id (new_order (db shop) 1 (req_shipping_info_id unknown_product_order)))
              [\<lparr>req_product_id = Some 99999, req_quantity = Some 2\<rparr>]
              (add_order (db shop) (new_order (db shop) 1 (req_shipping_info_id unknown_product_order)))
            = Inr s \<longrightarrow> constraints_ok stub_env s"
    by (auto simp: stub_env_def unique_usernames_def add_order_def new_order_def shop_def)
  have n: "next_id (map o_id (orders (db shop))) = 1" "length (orders (db shop)) = 0"
    by (simp_all add: next_id_def shop_def)
  have r: "fst (order_post stub_env broken_order shop) = Raised (KeyError ''quantity'')"
    by (simp add: order_post_def broken_order_def shop_def alice_def stub_env_def
        unique_usernames_def add_order_def new_order_def Let_def)
  from order_post_unknown_product [OF a g, of stub_env] u ok
  have st: "status_of (fst (order_post stub_env unknown_product_order shop)) = Some 201"
    by blast
  then obtain body where
    "fst (order_post stub_env unknown_product_order shop) = Response body 201"
    by (auto simp: status_of_def split: outcome.splits)
  with order_post_unknown_product [OF a g, of stub_env] n
  have rows: "length (orders (db (snd (order_post stub_env unknown_product_order shop)))) = 1
     \<and> (\<exists>r \<in> set (order_details (db (snd (order_post stub_env unknown_product_order shop)))).
           product_id r = 99999 \<and> order_id r = 1)"
    by simp
  from order_post_unknown_product [OF b g, of stub_env] r
  have "snd (order_post stub_env broken_order shop) = shop" by blast
  with r have "order_post stub_env broken_order shop = (Raised (KeyError ''quantity''), shop)"
    by (simp add: prod_eq_iff)
  with g st rows show ?thesis by blast
qed

text \<open>
  Claim C2, as stated, fails: the order for quantity \<open>0\<close> of product 1 is answered 201,
  and the order and its line item with quantity \<open>0\<close> are in the store afterwards.
\<close>

theorem order_zero_quantity_counterexample:
  "order_post stub_env zero_quantity_order shop
     = (Response (OrderView \<lparr>o_id = 1, user_id = 1, shipping_info_id = None\<rparr>
                   [\<lparr>od_id = 1, order_id = 1, product_id = 1, quantity = 0\<rparr>]) 201,
        shop\<lparr>db := (db shop)
               \<lparr>orders := [\<lparr>o_id = 1, user_id = 1, shipping_info_id = None\<rparr>],
                order_details := [\<lparr>od_id = 1, order_id = 1, product_id = 1, quantity = 0\<rparr>]\<rparr>\<rparr>)"
  by (simp add: order_post_def zero_quantity_order_def shop_def alice_def stub_env_def
      unique_usernames_def add_order_def new_order_def order_view_def next_id_def Let_def)

text \<open>
  Claim C2, as amended. The handler compares no quantity with anything. For a request
  with a line item of quantity below 1: the answer is never 400; when every key is
  present and the store accepts the rows it is 201; with a 201 the order and a line item
  with that quantity are in the store; and when an exception escapes, the store and the
  session are as before the request.
\<close>

theorem order_post_low_quantity:
  assumes "req_order_details data = Some details" and "d \<in> set details"
    and "req_quantity d = Some q" and "q < 1"
  shows "status_of (fst (order_post E data w)) \<noteq> Some 400
       \<and> (\<forall>uid. req_user_id data = Some uid
              \<and> (\<forall>x \<in> set details. req_product_id x \<noteq> None \<and> req_quantity x \<noteq> None)
              \<and> constraints_ok E (add_order (db w) (new_order (db w) uid (req_shipping_info_id data)))
              \<and> (\<forall>s. add_details (o_id (new_order (db w) uid (req_shipping_info_id data)))
                         details
                         (add_order (db w) (new_order (db w) uid (req_shipping_info_id data)))
                       = Inr s \<longrightarrow> constraints_ok E s) \<longrightarrow>
            status_of (fst (order_post E data w)) = Some 201)
       \<and> (\<forall>b. fst (order_post E data w) = Response b 201 \<longrightarrow>
            length (orders (db (snd (order_post E data w)))) = length (orders (db w)) + 1
            \<and> (\<exists>r \<in> set (order_details (db (snd (order_post E data w)))).
                  quantity r = q \<and> Some (product_id r) = req_product_id d
                  \<and> order_id r = next_id (map o_id (orders (db w)))))
       \<and> (\<forall>e. fst (order_post E data w) = Raised e \<longrightarrow> snd (order_post E data w) = w)"
proof (intro conjI allI impI)
  from order_post_status [of E data w]
  show "status_of (fst (order_post E data w)) \<noteq> Some 400" by auto
next
  fix uid
  assume "req_user_id data = Some uid
     \<and> (\<forall>x \<in> set details. req_product_id x \<noteq> None \<and> req_quantity x \<noteq> None)
     \<and> constraints_ok E (add_order (db w) (new_order (db w) uid (req_shipping_info_id data)))
     \<and> (\<forall>s. add_details (o_id (new_order (db w) uid (req_shipping_info_id data))) details
                (add_order (db w) (new_order (db w) uid (req_shipping_info_id data)))
              = Inr s \<longrightarrow> constraints_ok E s)"
  then show "status_of (fst (order_post E data w)) = Some 201"
    using order_post_accepted [OF _ assms(1)] by blast
next
  fix b assume "fst (order_post E data w) = Response b 201"
  from order_post_persists_item [OF assms(1,2) this] assms(3)
  show "length (orders (db (snd (order_post E data w)))) = length (orders (db w)) + 1"
    and "\<exists>r \<in> set (order_details (db (snd (order_post E data w)))).
           quantity r = q \<and> Some (product_id r) = req_product_id d
           \<and> order_id r = next_id (map o_id (orders (db w)))"
    by auto
next
  fix e assume "fst (order_post E data w) = Raised e"
  then show "snd (order_post E data w) = w" by (rule order_post_raised)
qed

theorem order_post_low_quantity_witness:
  "(0::int) < 1
   \<and> status_of (fst (order_post stub_env zero_quantity_order shop)) = Some 201
   \<and> length (orders (db (snd (order_post stub_env zero_quantity_order shop)))) = 1
   \<and> (\<exists>r \<in> set (order_details (db (snd (order_post stub_env zero_quantity_order shop)))).
         quantity r = 0 \<and> product_id r = 1 \<and> order_id r = 1)
   \<and> order_post stub_env broken_order shop = (Raised (KeyError ''quantity''), shop)"
proof -
  have a: "req_order_details zero_quantity_order
             = Some [\<lparr>req_product_id = Some 1, req_quantity = Some 0\<rparr>]"
      "\<lparr>req_product_id = Some 1, req_quantity = Some 0\<rparr>
         \<in> set [\<lparr>req_product_id = Some 1, req_quantity = Some 0\<rparr>]"
      "req_quantity \<lparr>req_product_id = Some 1, req_quantity = Some 0\<rparr> = Some 0"
    by (simp_all add: zero_quantity_order_def)
  have b: "req_order_details broken_order
             = Some [\<lparr>req_product_id = Some 99999, req_quantity = Some 0\<rparr>,
                     \<lparr>req_product_id = Some 1, req_quantity = None\<rparr>]"
      "\<lparr>req_product_id = Some 99999, req_quantity = Some 0\<rparr>
         \<in> set [\<lparr>req_product_id = Some 99999, req_quantity = Some 0\<rparr>,
                \<lparr>req_product_id = Some 1, req_quantity = None\<rparr>]"
      "req_quantity \<lparr>req_product_id = Some 99999, req_quantity = Some 0\<rparr> = Some 0"
    by (simp_all add: broken_order_def)
  have q: "(0::int) < 1" by simp
  have u: "req_user_id zero_quantity_order = Some 1"
      "\<forall>x \<in> set [\<lparr>req_product_id = Some 1, req_quantity = Some 0\<rparr>].
         req_product_id x \<noteq> None \<and> req_quantity x \<noteq> None"
    by (simp_all add: zero_quantity_order_def)
  have ok: "constraints_ok stub_env
        (add_order (db shop) (new_order (db shop) 1 (req_shipping_info_id zero_quantity_order)))"
      "\<forall>s. add_details (o_id (new_order (db shop) 1 (req_shipping_info_id zero_quantity_order)))
              [\<lparr>req_product_id = Some 1, req_quantity = Some 0\<rparr>]
              (add_order (db shop) (new_order (db shop) 1 (req_shipping_info_id zero_quantity_order)))
            = Inr s \<longrightarrow> constraints_ok stub_env s"
    by (auto simp: stub_env_def unique_usernames_def add_order_def new_order_def shop_def)
  have n: "next_id (map o_id (orders (db shop))) = 1" "length (orders (db shop)) = 0"
    by (simp_all add: next_id_def shop_def)
  have r: "fst (order_post stub_env broken_order shop) = Raised (KeyError ''quantity'')"
    by (simp add: order_post_def broken_order_def shop_def alice_def stub_env_def
        unique_usernames_def add_order_def new_order_def Let_def)
  from order_post_low_quantity [OF a q, of stub_env shop] u ok
  have st: "status_of (fst (order_post stub_env zero_quantity_order shop)) = Some 201"
    by blast
  then obtain body where
    "fst (order_post stub_env zero_quantity_order shop) = Response body 201"
    by (auto simp: status_of_def split: outcome.splits)
  with order_post_low_quantity [OF a q, of stub_env shop] n
  have rows: "length (orders (db (snd (order_post stub_env zero_quantity_order shop)))) = 1
     \<and> (\<exists>r \<in> set (order_details (db (snd (order_post stub_env zero_quantity_order shop)))).
           quantity r = 0 \<and> product_id r = 1 \<and> order_id r = 1)"
    by simp
  from order_post_low_quantity [OF b q, of stub_env shop] r
  have "snd (order_post stub_env broken_order shop) = shop" by blast
  with r have "order_post stub_env broken_order shop = (Raised (KeyError ''quantity''), shop)"
    by (simp add: prod_eq_iff)
  with q st rows show ?thesis by blast
qed

text \<open>
  Claim C3, as stated, fails in its first half: an order request whose list of line
  items is empty is answered 201, and afterwards the store holds the order and not one
  line item of it.
\<close>

theorem order_without_details_counterexample:
  "order_post stub_env empty_order shop
     = (Response (OrderView \<lparr>o_id = 1, user_id = 1, shipping_info_id = None\<rparr> []) 201,
        shop\<lparr>db := (db shop)\<lparr>orders := [\<lparr>o_id = 1, user_id = 1, shipping_info_id = None\<rparr>]\<rparr>\<rparr>)
   \<and> filter (\<lambda>r. order_id r = 1)
        (order_details (db (snd (order_post stub_env empty_order shop)))) = []"
  by (simp add: order_post_def empty_order_def shop_def alice_def stub_env_def
      unique_usernames_def add_order_def new_order_def order_view_def next_id_def Let_def)

text \<open>
  Claim C3, as amended. Order creation is all or nothing. Either an exception escapes
  and the world is the one before the request: no order and no line item of the request
  is in the store, also when the exception comes after the header was flushed. Or the
  answer is 201 and the store has gained exactly the order header and one line item per
  item of the request, each carrying the id of the new order; the number of line items
  is that of the request, which may be zero. Accounts, products and the session are
  untouched.
\<close>

theorem order_post_all_or_nothing:
  "(\<exists>e. order_post E data w = (Raised e, w))
   \<or> (\<exists>uid details b rows.
         req_user_id data = Some uid \<and> req_order_details data = Some details
         \<and> fst (order_post E data w) = Response b 201
         \<and> orders (db (snd (order_post E data w)))
             = orders (db w) @ [new_order (db w) uid (req_shipping_info_id data)]
         \<and> order_details (db (snd (order_post E data w))) = order_details (db w) @ rows
         \<and> length rows = length details
         \<and> (\<forall>r \<in> set rows. order_id r = o_id (new_order (db w) uid (req_shipping_info_id data)))
         \<and> users (db (snd (order_post E data w))) = users (db w)
         \<and> products (db (snd (order_post E data w))) = products (db w)
         \<and> session (snd (order_post E data w)) = session w)"
proof -
  from order_post_cases [of E data w] show ?thesis
  proof
    assume "\<exists>e. order_post E data w = (Raised e, w)"
    then show ?thesis ..
  next
    assume "\<exists>uid details staged.
         req_user_id data = Some uid \<and> req_order_details data = Some details
         \<and> add_details (o_id (new_order (db w) uid (req_shipping_info_id data))) details
              (add_order (db w) (new_order (db w) uid (req_shipping_info_id data))) = Inr staged
         \<and> constraints_ok E staged
         \<and> order_post E data w =
             (Response (order_view staged (new_order (db w) uid (req_shipping_info_id data))) 201,
              w\<lparr>db := staged\<rparr>)"
    then obtain uid details staged where
      req: "req_user_id data = Some uid" "req_order_details data = Some details"
      and st: "add_details (o_id (new_order (db w) uid (req_shipping_info_id data))) details
              (add_order (db w) (new_order (db w) uid (req_shipping_info_id data))) = Inr staged"
      and post: "order_post E data w =
             (Response (order_view staged (new_order (db w) uid (req_shipping_info_id data))) 201,
              w\<lparr>db := staged\<rparr>)"
      by blast
    let ?ord = "new_order (db w) uid (req_shipping_info_id data)"
    from add_details_rows [OF st] obtain rows where
      frame: "users staged = users (db w)" "products staged = products (db w)"
        "orders staged = orders (db w) @ [?ord]"
      and rows: "order_details staged = order_details (db w) @ rows"
        "map (\<lambda>r. (Some (product_id r), Some (quantity r))) rows
           = map (\<lambda>d. (req_product_id d, req_quantity d)) details"
        "\<forall>r \<in> set rows. order_id r = o_id ?ord"
      by (auto simp: add_order_def)
    from rows(2) have len: "length rows = length details"
      by (rule map_eq_imp_length_eq)
    from post have w': "db (snd (order_post E data w)) = staged"
      "session (snd (order_post E data w)) = session w"
      "fst (order_post E data w) = Response (order_view staged ?ord) 201"
      by simp_all
    from req frame rows(1,3) len w' show ?thesis by auto
  qed
qed

theorem order_post_all_or_nothing_witness:
  "order_post stub_env broken_order shop = (Raised (KeyError ''quantity''), shop)
   \<and> status_of (fst (order_post stub_env unknown_product_order shop)) = Some 201
   \<and> length (orders (db (snd (order_post stub_env unknown_product_order shop)))) = 1
   \<and> length (order_details (db (snd (order_post stub_env unknown_product_order shop)))) = 1
   \<and> status_of (fst (order_post stub_env empty_order shop)) = Some 201
   \<and> length (orders (db (snd (order_post stub_env empty_order shop)))) = 1
   \<and> length (order_details (db (snd (order_post stub_env empty_order shop)))) = 0"
proof -
  have r: "fst (order_post stub_env broken_order shop) = Raised (KeyError ''quantity'')"
    by (simp add: order_post_def broken_order_def shop_def alice_def stub_env_def
        unique_usernames_def add_order_def new_order_def Let_def)
  have u: "fst (order_post stub_env unknown_product_order shop)
      = Response (OrderView \<lparr>o_id = 1, user_id = 1, shipping_info_id = None\<rparr>
                   [\<lparr>od_id = 1, order_id = 1, product_id = 99999, quantity = 2\<rparr>]) 201"
    by (simp add: order_post_def unknown_product_order_def shop_def alice_def stub_env_def
        unique_usernames_def add_order_def new_order_def order_view_def next_id_def Let_def)
  have e: "fst (order_post stub_env empty_order shop)
      = Response (OrderView \<lparr>o_id = 1, user_id = 1, shipping_info_id = None\<rparr> []) 201"
    by (simp add: order_post_def empty_order_def shop_def alice_def stub_env_def
        unique_usernames_def add_order_def new_order_def order_view_def next_id_def Let_def)
  have d: "req_order_details unknown_product_order
             = Some [\<lparr>req_product_id = Some 99999, req_quantity = Some 2\<rparr>]"
      "req_order_details empty_order = Some []"
    and s: "orders (db shop) = []" "order_details (db shop) = []"
    by (simp_all add: unknown_product_order_def empty_order_def shop_def)
  from order_post_all_or_nothing [of stub_env broken_order shop] r
  have 1: "order_post stub_env broken_order shop = (Raised (KeyError ''quantity''), shop)"
    by auto
  from order_post_all_or_nothing [of stub_env unknown_product_order shop] u d s
  have 2: "length (orders (db (snd (order_post stub_env unknown_product_order shop)))) = 1
     \<and> length (order_details (db (snd (order_post stub_env unknown_product_order shop)))) = 1"
    by auto
  from order_post_all_or_nothing [of stub_env empty_order shop] e d s
  have 3: "length (orders (db (snd (order_post stub_env empty_order shop)))) = 1
     \<and> length (order_details (db (snd (order_post stub_env empty_order shop)))) = 0"
    by auto
  from 1 2 3 u e show ?thesis by (simp add: status_of_def)
qed

end
